theory Spec2Isabelle
  imports Complex_Main
begin

section \<open>Python values handed to the JSON encoder\<close>

text \<open>
  The log emitter of \<^verbatim>\<open>function_app.py\<close> builds a dictionary and passes it to
  \<^verbatim>\<open>json.dumps\<close>. The values that can occur in such a dictionary are modelled by
  \<open>pyval\<close>: \<open>None\<close>, booleans, integers, floats, strings, lists, dictionaries with string
  keys (in insertion order), and instances of classes that the default encoder does not know
  (\<open>PObject\<close>, with the class name and the attributes).
  Confidence scores are Python floats that the code only copies; they are carried as
  \<open>real\<close> and no arithmetic is ever done on them.
  A Python \<open>str\<close> is represented by its UTF-8 bytes, one \<open>char\<close> per byte.
\<close>

datatype pyval =
    PNone
  | PBool bool
  | PInt int
  | PFloat real
  | PStr string
  | PList "pyval list"
  | PDict "(string \<times> pyval) list"
  | PObject string "(string \<times> pyval) list"

text \<open>\<^verbatim>\<open>d[k]\<close> on a dictionary literal; \<open>None\<close> where the key is absent or the value is no dictionary.\<close>

fun dict_get :: "pyval \<Rightarrow> string \<Rightarrow> pyval option" where
  "dict_get (PDict kvs) k = map_of kvs k"
| "dict_get _ k = None"

fun dict_keys :: "pyval \<Rightarrow> string list" where
  "dict_keys (PDict kvs) = map fst kvs"
| "dict_keys _ = []"

text \<open>
  An exception is its class name and \<^verbatim>\<open>str(e)\<close>.
\<close>

datatype exn = Exn (exn_class: string) (exn_str: string)

text \<open>
  \<open>first_object v\<close> is the class of the first object without a JSON encoding that the
  encoder meets when it walks \<open>v\<close> in order, if there is one.
\<close>

fun first_some :: "'a option list \<Rightarrow> 'a option" where
  "first_some [] = None"
| "first_some (None # xs) = first_some xs"
| "first_some (Some x # xs) = Some x"

primrec first_object :: "pyval \<Rightarrow> string option" where
  "first_object PNone = None"
| "first_object (PBool b) = None"
| "first_object (PInt i) = None"
| "first_object (PFloat r) = None"
| "first_object (PStr s) = None"
| "first_object (PList xs) = first_some (map first_object xs)"
| "first_object (PDict kvs) = first_some (map snd (map (map_prod id first_object) kvs))"
| "first_object (PObject cls attrs) = Some cls"

text \<open>
  The text that \<^verbatim>\<open>json.dumps(v)\<close> returns is a function of \<open>v\<close> alone; it is
  represented by \<open>JsonText v\<close>. Other log messages are plain strings.
\<close>

datatype log_msg = Text string | JsonText pyval

text \<open>
  \<^verbatim>\<open>json.dumps\<close> raises \<^verbatim>\<open>TypeError\<close> at the first object it cannot encode.
\<close>

definition json_dumps :: "pyval \<Rightarrow> exn + log_msg" where
  "json_dumps v =
     (case first_object v of
        Some cls \<Rightarrow> Inl (Exn ''TypeError'' (''Object of type '' @ cls @ '' is not JSON serializable''))
      | None \<Rightarrow> Inr (JsonText v))"

section \<open>The service's result objects\<close>

text \<open>
  The classes of the text-analysis client that \<^verbatim>\<open>analyze_pii_phi\<close> reads, with the
  attributes it reads. A warning is an instance of the client's own class
  \<^verbatim>\<open>TextAnalyticsWarning\<close>, which is not a \<^verbatim>\<open>dict\<close>.
\<close>

record warning =
  warning_code :: string
  warning_message :: string

record pii_entity =
  pii_category :: string
  pii_subcategory :: "string option"
  pii_offset :: int
  pii_length :: int
  pii_confidence_score :: real

record data_source =
  entity_id :: string
  source_name :: string

record assertion =
  conditionality :: "string option"
  certainty :: "string option"
  association :: "string option"

record healthcare_entity =
  hc_category :: string
  hc_subcategory :: "string option"
  hc_confidence_score :: real
  hc_data_sources :: "data_source list option"
  hc_offset :: int
  hc_length :: int
  hc_assertion :: "assertion option"

text \<open>A role names the function of an entity in a relation and refers to that entity.\<close>

record role =
  role_name :: string
  role_entity :: healthcare_entity

record entity_relation =
  rel_confidence_score :: real
  relation_type :: string
  roles :: "role list"

record pii_result =
  redacted_text :: string
  pii_entities :: "pii_entity list"
  pii_warnings :: "warning list"
  pii_is_error :: bool

record healthcare_result =
  hc_entities :: "healthcare_entity list"
  entity_relations :: "entity_relation list"
  hc_warnings :: "warning list"
  hc_is_error :: bool

record error_info =
  error_code :: string
  error_message :: string

text \<open>
  One item of the response. The class fixes the \<^verbatim>\<open>kind\<close> tag, so the chain of
  comparisons \<^verbatim>\<open>result.kind == ...\<close> is a match on the constructor (lemma
  \<open>kind_dispatch\<close> below). \<open>RecognizeEntitiesResult\<close> stands for a successful result of an
  action other than the two requested ones: the function reads its \<^verbatim>\<open>kind\<close> and its
  \<^verbatim>\<open>is_error\<close> only, which is false.
\<close>

datatype result =
    RecognizePiiEntitiesResult pii_result
  | AnalyzeHealthcareEntitiesResult healthcare_result
  | DocumentError error_info
  | RecognizeEntitiesResult

fun kind :: "result \<Rightarrow> string" where
  "kind (RecognizePiiEntitiesResult p) = ''PiiEntityRecognition''"
| "kind (AnalyzeHealthcareEntitiesResult h) = ''Healthcare''"
| "kind (DocumentError e) = ''DocumentError''"
| "kind RecognizeEntitiesResult = ''EntityRecognition''"

fun is_error :: "result \<Rightarrow> bool" where
  "is_error (RecognizePiiEntitiesResult p) = pii_is_error p"
| "is_error (AnalyzeHealthcareEntitiesResult h) = hc_is_error h"
| "is_error (DocumentError e) = True"
| "is_error RecognizeEntitiesResult = False"

section \<open>Entity projection\<close>

definition opt_str :: "string option \<Rightarrow> pyval" where
  "opt_str s = (case s of None \<Rightarrow> PNone | Some t \<Rightarrow> PStr t)"

definition warning_object :: "warning \<Rightarrow> pyval" where
  "warning_object w =
     PObject ''TextAnalyticsWarning''
       [(''code'', PStr (warning_code w)), (''message'', PStr (warning_message w))]"

text \<open>The dictionary of the list comprehension over \<^verbatim>\<open>result.entities\<close> (PII branch).\<close>

definition pii_entity_record :: "pii_entity \<Rightarrow> pyval" where
  "pii_entity_record entity =
     PDict [(''category'', PStr (pii_category entity)),
            (''subcategory'', opt_str (pii_subcategory entity)),
            (''offset'', PInt (pii_offset entity)),
            (''length'', PInt (pii_length entity)),
            (''confidence_score'', PFloat (pii_confidence_score entity))]"

definition data_source_record :: "data_source \<Rightarrow> pyval" where
  "data_source_record source =
     PDict [(''entity_id'', PStr (entity_id source)), (''name'', PStr (source_name source))]"

definition assertion_record :: "assertion \<Rightarrow> pyval" where
  "assertion_record a =
     PDict [(''conditionality'', opt_str (conditionality a)),
            (''certainty'', opt_str (certainty a)),
            (''association'', opt_str (association a))]"

text \<open>
  The body of the loop over \<^verbatim>\<open>result.entities\<close> (healthcare branch): the dictionary is
  created with \<^verbatim>\<open>data_sources\<close> empty, the data sources are appended when the attribute is
  truthy (neither \<^verbatim>\<open>None\<close> nor empty), and the key \<^verbatim>\<open>assertion\<close> is added last when the
  entity has an assertion.
\<close>

definition healthcare_entity_record :: "healthcare_entity \<Rightarrow> pyval" where
  "healthcare_entity_record entity =
     PDict ([(''category'', PStr (hc_category entity)),
             (''subcategory'', opt_str (hc_subcategory entity)),
             (''confidence_score'', PFloat (hc_confidence_score entity)),
             (''data_sources'',
                PList (case hc_data_sources entity of
                         None \<Rightarrow> []
                       | Some sources \<Rightarrow> map data_source_record sources)),
             (''offset'', PInt (hc_offset entity)),
             (''length'', PInt (hc_length entity))]
            @ (case hc_assertion entity of
                 None \<Rightarrow> []
               | Some a \<Rightarrow> [(''assertion'', assertion_record a)]))"

definition entity_info :: "role \<Rightarrow> pyval" where
  "entity_info r = PDict [(''role'', PStr (role_name r))]"

definition relation_info :: "entity_relation \<Rightarrow> pyval" where
  "relation_info relation =
     PDict [(''confidenceScore'', PFloat (rel_confidence_score relation)),
            (''relationType'', PStr (relation_type relation)),
            (''entities'', PList (map entity_info (roles relation)))]"

text \<open>The second argument of \<^verbatim>\<open>log_structured_data\<close> in either branch.\<close>

definition pii_documents :: "string \<Rightarrow> pii_result \<Rightarrow> pyval" where
  "pii_documents document_id r =
     PDict [(''id'', PStr document_id),
            (''entities'', PList (map pii_entity_record (pii_entities r))),
            (''warnings'', PList (map warning_object (pii_warnings r)))]"

definition phi_documents :: "string \<Rightarrow> healthcare_result \<Rightarrow> pyval" where
  "phi_documents document_id r =
     PDict [(''id'', PStr document_id),
            (''entities'', PList (map healthcare_entity_record (hc_entities r))),
            (''relations'', PList (map relation_info (entity_relations r))),
            (''warnings'', PList (map warning_object (hc_warnings r)))]"

section \<open>The logging channel and the log emitter\<close>

datatype log_line = LogInfo log_msg | LogError log_msg

text \<open>
  The frame of one call of \<^verbatim>\<open>analyze_pii_phi\<close>: the lines written to the logging channel
  so far, and the local variable \<^verbatim>\<open>document_redacted_text\<close> (\<open>None\<close> while unbound).
  Both survive an exception raised in the \<^verbatim>\<open>try\<close> block.
\<close>

record frame =
  logged :: "log_line list"
  document_redacted_text :: "string option"

definition logging_info :: "log_msg \<Rightarrow> frame \<Rightarrow> frame" where
  "logging_info m s = s\<lparr>logged := logged s @ [LogInfo m]\<rparr>"

definition logging_error :: "log_msg \<Rightarrow> frame \<Rightarrow> frame" where
  "logging_error m s = s\<lparr>logged := logged s @ [LogError m]\<rparr>"

definition log_entry :: "string \<Rightarrow> pyval \<Rightarrow> pyval \<Rightarrow> pyval" where
  "log_entry message custom_dimensions errors =
     PDict [(''analysis_type'', PStr message),
            (''documents'', custom_dimensions),
            (''errors'', errors),
            (''modelVersion'', PStr ''2023-09-01'')]"

text \<open>
  \<^verbatim>\<open>log_structured_data\<close>: the first component is the exception that leaves the
  function, if any. There is no handler in it, so what \<^verbatim>\<open>json.dumps\<close> raises leaves it.
\<close>

definition log_structured_data :: "string \<Rightarrow> pyval \<Rightarrow> pyval \<Rightarrow> frame \<Rightarrow> exn option \<times> frame" where
  "log_structured_data message custom_dimensions errors s =
     (case json_dumps (log_entry message custom_dimensions errors) of
        Inl e \<Rightarrow> (Some e, s)
      | Inr text \<Rightarrow> (None, logging_info text s))"

section \<open>Classification of the result items\<close>

definition error_line :: "error_info \<Rightarrow> string" where
  "error_line e =
     ''...Is an error with code '' @ [CHR 0x27] @ error_code e @ [CHR 0x27]
       @ '' and message '' @ [CHR 0x27] @ error_message e @ [CHR 0x27]"

text \<open>The body of the inner loop of \<^verbatim>\<open>analyze_pii_phi\<close>, for one item.\<close>

fun process_result :: "string \<Rightarrow> result \<Rightarrow> frame \<Rightarrow> exn option \<times> frame" where
  "process_result document_id (RecognizePiiEntitiesResult r) s =
     log_structured_data ''PII'' (pii_documents document_id r) (PBool (pii_is_error r))
       (s\<lparr>document_redacted_text := Some (redacted_text r)\<rparr>)"
| "process_result document_id (AnalyzeHealthcareEntitiesResult r) s =
     log_structured_data ''PHI'' (phi_documents document_id r) (PBool (hc_is_error r)) s"
| "process_result document_id (DocumentError e) s =
     (None, logging_error (Text (error_line e)) s)"
| "process_result document_id RecognizeEntitiesResult s = (None, s)"

text \<open>The inner loop: an exception ends it.\<close>

fun process_results :: "string \<Rightarrow> result list \<Rightarrow> frame \<Rightarrow> exn option \<times> frame" where
  "process_results document_id [] s = (None, s)"
| "process_results document_id (r # rs) s =
     (case process_result document_id r s of
        (Some e, s') \<Rightarrow> (Some e, s')
      | (None, s') \<Rightarrow> process_results document_id rs s')"

text \<open>The outer loop over \<^verbatim>\<open>document_results\<close>.\<close>

fun process_actions :: "string \<Rightarrow> result list list \<Rightarrow> frame \<Rightarrow> exn option \<times> frame" where
  "process_actions document_id [] s = (None, s)"
| "process_actions document_id (action_results # rest) s =
     (case process_results document_id action_results s of
        (Some e, s') \<Rightarrow> (Some e, s')
      | (None, s') \<Rightarrow> process_actions document_id rest s')"

section \<open>The analysis function\<close>

text \<open>
  The client is a parameter: \<open>client documents\<close> is what
  \<^verbatim>\<open>begin_analyze_actions(documents, ...)\<close> followed by \<^verbatim>\<open>poller.result()\<close> gives, either
  an exception or the groups of result items, in the order in which they are iterated.
\<close>

type_synonym client = "string list \<Rightarrow> exn + result list list"

definition failure_payload :: "string \<Rightarrow> pyval" where
  "failure_payload msg = PDict [(''error'', PStr msg), (''status'', PStr ''failed'')]"

text \<open>The \<^verbatim>\<open>except Exception as e\<close> clause.\<close>

definition handler :: "exn \<Rightarrow> log_line list \<Rightarrow> pyval \<times> log_line list" where
  "handler e lg =
     (failure_payload (exn_str e),
      lg @ [LogError (Text (''Error analyzing document: '' @ exn_str e))])"

text \<open>
  Reading \<^verbatim>\<open>document_redacted_text\<close> while it is unbound raises
  \<^verbatim>\<open>UnboundLocalError\<close> (the message is the one of Python 3.11 and later).
\<close>

definition unbound_local :: exn where
  "unbound_local =
     Exn ''UnboundLocalError''
       (''cannot access local variable '' @ [CHR 0x27] @ ''document_redacted_text'' @ [CHR 0x27]
          @ '' where it is not associated with a value'')"

definition analyze_pii_phi ::
  "client \<Rightarrow> string list \<Rightarrow> string \<Rightarrow> log_line list \<Rightarrow> pyval \<times> log_line list" where
  "analyze_pii_phi text_analytics_client documents document_id lg =
     (case text_analytics_client documents of
        Inl e \<Rightarrow> handler e lg
      | Inr document_results \<Rightarrow>
          (case process_actions document_id document_results
                  \<lparr>logged = lg, document_redacted_text = None\<rparr> of
             (Some e, s) \<Rightarrow> handler e (logged s)
           | (None, s) \<Rightarrow>
               (case document_redacted_text s of
                  None \<Rightarrow> handler unbound_local (logged s)
                | Some t \<Rightarrow> (PStr t, logged s))))"

section \<open>The blob-triggered handler\<close>

definition cont :: "nat \<Rightarrow> bool" where
  "cont b = (0x80 \<le> b \<and> b \<le> 0xBF)"

text \<open>Well-formed UTF-8 (no overlong forms, no surrogates, nothing above U+10FFFF).\<close>

fun utf8_valid :: "nat list \<Rightarrow> bool" where
  "utf8_valid [] = True"
| "utf8_valid (b # bs) =
     (if b < 0x80 then utf8_valid bs
      else if 0xC2 \<le> b \<and> b \<le> 0xDF then
        (case bs of c1 # r \<Rightarrow> cont c1 \<and> utf8_valid r | _ \<Rightarrow> False)
      else if 0xE0 \<le> b \<and> b \<le> 0xEF then
        (case bs of
           c1 # c2 # r \<Rightarrow>
             cont c1 \<and> cont c2
             \<and> (if b = 0xE0 then 0xA0 \<le> c1 else True)
             \<and> (if b = 0xED then c1 < 0xA0 else True)
             \<and> utf8_valid r
         | _ \<Rightarrow> False)
      else if 0xF0 \<le> b \<and> b \<le> 0xF4 then
        (case bs of
           c1 # c2 # c3 # r \<Rightarrow>
             cont c1 \<and> cont c2 \<and> cont c3
             \<and> (if b = 0xF0 then 0x90 \<le> c1 else True)
             \<and> (if b = 0xF4 then c1 < 0x90 else True)
             \<and> utf8_valid r
         | _ \<Rightarrow> False)
      else False)"

text \<open>
  \<^verbatim>\<open>bytes.decode('utf-8')\<close>: \<open>None\<close> where Python raises \<^verbatim>\<open>UnicodeDecodeError\<close>.
\<close>

definition decode_utf8 :: "string \<Rightarrow> string option" where
  "decode_utf8 bs = (if utf8_valid (map of_char bs) then Some bs else None)"

record input_stream =
  blob_name :: string
  blob_content :: string

text \<open>
  What the host sees of one invocation: the logging channel and the output binding
  (\<open>None\<close> while \<^verbatim>\<open>outputblob.set\<close> has not been called).
\<close>

record host =
  host_log :: "log_line list"
  outputblob :: "pyval option"

datatype invocation = Returned | Raised string

text \<open>
  \<^verbatim>\<open>analyze_sensitive_data\<close>. The correlation id that \<^verbatim>\<open>uuid.uuid4()\<close> draws is a
  parameter. The function has no handler of its own: an exception of the decoding leaves it.
\<close>

definition analyze_sensitive_data ::
  "client \<Rightarrow> string \<Rightarrow> input_stream \<Rightarrow> host \<Rightarrow> invocation \<times> host" where
  "analyze_sensitive_data text_analytics_client document_id myblob h =
     (let h1 = h\<lparr>host_log := host_log h @
                 [LogInfo (Text (''Starting analysis for document: '' @ blob_name myblob
                    @ '' with document ID: '' @ document_id @ [CHR 0x0A]))]\<rparr>
      in case decode_utf8 (blob_content myblob) of
           None \<Rightarrow> (Raised ''UnicodeDecodeError'', h1)
         | Some text \<Rightarrow>
             (case analyze_pii_phi text_analytics_client [text] document_id (host_log h1) of
                (analysis_results, lg) \<Rightarrow>
                  (Returned,
                   \<lparr>host_log = lg @
                      [LogInfo (Text (''Analysis completed for: '' @ blob_name myblob
                         @ '' with process ID: '' @ document_id @ [CHR 0x0A]))],
                    outputblob = Some analysis_results\<rparr>)))"

section \<open>Notions used in the statements\<close>

text \<open>
  The warnings that the branch of an item puts into its record; items of the other two
  classes put none anywhere.
\<close>

fun item_warnings :: "result \<Rightarrow> warning list" where
  "item_warnings (RecognizePiiEntitiesResult r) = pii_warnings r"
| "item_warnings (AnalyzeHealthcareEntitiesResult r) = hc_warnings r"
| "item_warnings (DocumentError e) = []"
| "item_warnings RecognizeEntitiesResult = []"

definition type_error :: exn where
  "type_error =
     Exn ''TypeError'' ''Object of type TextAnalyticsWarning is not JSON serializable''"

text \<open>The lines one item adds to the logging channel, and what it does to the variable.\<close>

fun item_lines :: "string \<Rightarrow> result \<Rightarrow> log_line list" where
  "item_lines d (RecognizePiiEntitiesResult r) =
     (if pii_warnings r = [] then
        [LogInfo (JsonText (log_entry ''PII'' (pii_documents d r) (PBool (pii_is_error r))))]
      else [])"
| "item_lines d (AnalyzeHealthcareEntitiesResult r) =
     (if hc_warnings r = [] then
        [LogInfo (JsonText (log_entry ''PHI'' (phi_documents d r) (PBool (hc_is_error r))))]
      else [])"
| "item_lines d (DocumentError e) = [LogError (Text (error_line e))]"
| "item_lines d RecognizeEntitiesResult = []"

fun item_text :: "result \<Rightarrow> string option \<Rightarrow> string option" where
  "item_text (RecognizePiiEntitiesResult r) v = Some (redacted_text r)"
| "item_text _ v = v"

text \<open>The items the loop reaches: all of them up to and including the first that raises.\<close>

fun processed :: "result list \<Rightarrow> result list" where
  "processed [] = []"
| "processed (r # rs) = (if item_warnings r = [] then r # processed rs else [r])"

text \<open>The PII results of a sequence of items, in iteration order.\<close>

fun pii_results :: "result list \<Rightarrow> pii_result list" where
  "pii_results [] = []"
| "pii_results (RecognizePiiEntitiesResult r # rs) = r # pii_results rs"
| "pii_results (_ # rs) = pii_results rs"

text \<open>The frame in which the \<^verbatim>\<open>try\<close> block starts.\<close>

definition entry_frame :: "log_line list \<Rightarrow> frame" where
  "entry_frame lg = \<lparr>logged = lg, document_redacted_text = None\<rparr>"

text \<open>The lines that classifying a response writes when the channel is empty before.\<close>

definition classify :: "string \<Rightarrow> result list list \<Rightarrow> log_line list" where
  "classify document_id document_results =
     logged (snd (process_actions document_id document_results (entry_frame [])))"

text \<open>
  The structured records among the lines of the logging channel: the dictionaries whose
  encoding \<^verbatim>\<open>log_structured_data\<close> wrote.
\<close>

definition structured_records :: "log_line list \<Rightarrow> pyval list" where
  "structured_records lg =
     concat (map (\<lambda>l. case l of LogInfo (JsonText v) \<Rightarrow> [v]
                            | LogError (JsonText v) \<Rightarrow> [v]
                            | _ \<Rightarrow> []) lg)"

section \<open>Example inputs\<close>

text \<open>
  The fabricated response of the round-trip property: two PII entities and the redacted text.
\<close>

definition name_entity :: pii_entity where
  "name_entity = \<lparr>pii_category = ''Name'', pii_subcategory = None, pii_offset = 0,
     pii_length = 4, pii_confidence_score = 0.9\<rparr>"

definition phone_entity :: pii_entity where
  "phone_entity = \<lparr>pii_category = ''Phone'', pii_subcategory = None, pii_offset = 10,
     pii_length = 8, pii_confidence_score = 0.95\<rparr>"

definition fabricated_pii :: pii_result where
  "fabricated_pii = \<lparr>redacted_text = ''**** is at **** now'',
     pii_entities = [name_entity, phone_entity], pii_warnings = [], pii_is_error = False\<rparr>"

definition earlier_pii :: pii_result where
  "earlier_pii = \<lparr>redacted_text = ''first'', pii_entities = [], pii_warnings = [],
     pii_is_error = False\<rparr>"

definition empty_healthcare :: healthcare_result where
  "empty_healthcare = \<lparr>hc_entities = [], entity_relations = [], hc_warnings = [],
     hc_is_error = False\<rparr>"

definition two_pii_client :: client where
  "two_pii_client documents =
     Inr [[RecognizePiiEntitiesResult earlier_pii,
           AnalyzeHealthcareEntitiesResult empty_healthcare],
          [RecognizePiiEntitiesResult fabricated_pii]]"

definition text_blob :: input_stream where
  "text_blob = \<lparr>blob_name = ''note.txt'', blob_content = ''Anna is at 555-0100 now''\<rparr>"

definition idle_host :: host where
  "idle_host = \<lparr>host_log = [], outputblob = None\<rparr>"

text \<open>
  A healthcare result with two entities and two relations, one of them without roles.
\<close>

definition ibuprofen_source :: data_source where
  "ibuprofen_source = \<lparr>entity_id = ''C0020740'', source_name = ''UMLS''\<rparr>"

definition ibuprofen_entity :: healthcare_entity where
  "ibuprofen_entity = \<lparr>hc_category = ''MedicationName'', hc_subcategory = None,
     hc_confidence_score = 1, hc_data_sources = Some [ibuprofen_source], hc_offset = 27,
     hc_length = 9,
     hc_assertion = Some \<lparr>conditionality = None, certainty = Some ''negative_possible'',
       association = None\<rparr>\<rparr>"

definition dosage_entity :: healthcare_entity where
  "dosage_entity = \<lparr>hc_category = ''Dosage'', hc_subcategory = None,
     hc_confidence_score = 0.98, hc_data_sources = None, hc_offset = 20, hc_length = 6,
     hc_assertion = None\<rparr>"

definition dosage_relation :: entity_relation where
  "dosage_relation = \<lparr>rel_confidence_score = 0.99,
     relation_type = ''DosageOfMedication'',
     roles = [\<lparr>role_name = ''Dosage'', role_entity = dosage_entity\<rparr>,
              \<lparr>role_name = ''Medication'', role_entity = ibuprofen_entity\<rparr>]\<rparr>"

definition empty_relation :: entity_relation where
  "empty_relation = \<lparr>rel_confidence_score = 0.5, relation_type = ''FormOfMedication'',
     roles = []\<rparr>"

definition sample_healthcare :: healthcare_result where
  "sample_healthcare = \<lparr>hc_entities = [dosage_entity, ibuprofen_entity],
     entity_relations = [dosage_relation, empty_relation], hc_warnings = [],
     hc_is_error = False\<rparr>"

definition both_client :: client where
  "both_client documents =
     Inr [[RecognizePiiEntitiesResult fabricated_pii,
           AnalyzeHealthcareEntitiesResult sample_healthcare]]"

text \<open>
  Results that carry a warning, a document error, and blobs that are not UTF-8: the byte
  \<open>0xE9\<close> of a Latin-1 text, and a two-byte sequence cut after its first byte.
\<close>

definition long_words_warning :: warning where
  "long_words_warning = \<lparr>warning_code = ''LongWordsInDocument'',
     warning_message = ''The document contains very long words''\<rparr>"

definition warned_pii :: pii_result where
  "warned_pii = \<lparr>redacted_text = ''**** called'', pii_entities = [],
     pii_warnings = [long_words_warning], pii_is_error = False\<rparr>"

definition warned_healthcare :: healthcare_result where
  "warned_healthcare = \<lparr>hc_entities = [], entity_relations = [],
     hc_warnings = [long_words_warning], hc_is_error = False\<rparr>"

definition invalid_document :: error_info where
  "invalid_document = \<lparr>error_code = ''InvalidDocument'',
     error_message = ''Document text is empty.''\<rparr>"

definition latin1_blob :: input_stream where
  "latin1_blob = \<lparr>blob_name = ''cafe.txt'',
     blob_content = [CHR ''c'', CHR ''a'', CHR ''f'', CHR 0xE9]\<rparr>"

definition truncated_blob :: input_stream where
  "truncated_blob = \<lparr>blob_name = ''cut.txt'', blob_content = [CHR ''a'', CHR 0xC3]\<rparr>"

definition isolation_client :: client where
  "isolation_client documents =
     Inr [[RecognizePiiEntitiesResult warned_pii, DocumentError invalid_document]]"

definition healthcare_only_client :: client where
  "healthcare_only_client documents =
     Inr [[AnalyzeHealthcareEntitiesResult empty_healthcare]]"

definition warned_first_client :: client where
  "warned_first_client documents =
     Inr [[RecognizePiiEntitiesResult warned_pii,
           AnalyzeHealthcareEntitiesResult empty_healthcare]]"

definition warned_later_client :: client where
  "warned_later_client documents =
     Inr [[RecognizePiiEntitiesResult fabricated_pii,
           AnalyzeHealthcareEntitiesResult warned_healthcare,
           DocumentError invalid_document]]"

text \<open>
  A PII entity with a subcategory, and the healthcare result above with a warning added.
\<close>

definition date_entity :: pii_entity where
  "date_entity = \<lparr>pii_category = ''DateTime'', pii_subcategory = Some ''Date'',
     pii_offset = 22, pii_length = 10, pii_confidence_score = 0.8\<rparr>"

definition warned_relations :: healthcare_result where
  "warned_relations = \<lparr>hc_entities = [dosage_entity, ibuprofen_entity],
     entity_relations = [dosage_relation, empty_relation],
     hc_warnings = [long_words_warning], hc_is_error = False\<rparr>"

definition warned_relations_client :: client where
  "warned_relations_client documents =
     Inr [[RecognizePiiEntitiesResult fabricated_pii,
           AnalyzeHealthcareEntitiesResult warned_relations]]"

section \<open>What the encoder does with the records\<close>

lemma first_some_all_None:
  "(\<And>x. x \<in> set xs \<Longrightarrow> f x = None) \<Longrightarrow> first_some (map f xs) = None"
  by (induction xs) auto

lemma first_object_opt_str [simp]: "first_object (opt_str s) = None"
  by (cases s) (simp_all add: opt_str_def)

lemma first_object_pii_entity_record [simp]: "first_object (pii_entity_record e) = None"
  by (simp add: pii_entity_record_def)

lemma first_object_data_source_record [simp]: "first_object (data_source_record e) = None"
  by (simp add: data_source_record_def)

lemma first_object_assertion_record [simp]: "first_object (assertion_record e) = None"
  by (simp add: assertion_record_def)

lemma first_object_entity_info [simp]: "first_object (entity_info e) = None"
  by (simp add: entity_info_def)

lemma first_object_healthcare_entity_record [simp]:
  "first_object (healthcare_entity_record e) = None"
  by (cases "hc_assertion e")
     (simp_all add: healthcare_entity_record_def first_some_all_None split: option.splits)

lemma first_object_relation_info [simp]: "first_object (relation_info e) = None"
  by (simp add: relation_info_def first_some_all_None)

lemma first_object_warnings:
  "first_some (map (first_object \<circ> warning_object) ws) =
     (if ws = [] then None else Some ''TextAnalyticsWarning'')"
  by (cases ws) (simp_all add: warning_object_def)

lemma json_dumps_pii:
  "json_dumps (log_entry m (pii_documents d r) (PBool b)) =
     (if pii_warnings r = [] then Inr (JsonText (log_entry m (pii_documents d r) (PBool b)))
      else Inl type_error)"
  by (simp add: json_dumps_def log_entry_def pii_documents_def first_some_all_None
        first_object_warnings type_error_def)

lemma json_dumps_phi:
  "json_dumps (log_entry m (phi_documents d r) (PBool b)) =
     (if hc_warnings r = [] then Inr (JsonText (log_entry m (phi_documents d r) (PBool b)))
      else Inl type_error)"
  by (simp add: json_dumps_def log_entry_def phi_documents_def first_some_all_None
        first_object_warnings type_error_def)

section \<open>The loops in closed form\<close>

text \<open>The comparisons of the tag in the source select the constructors of the model.\<close>

lemma kind_dispatch:
  "(kind r = ''PiiEntityRecognition'') = (\<exists>p. r = RecognizePiiEntitiesResult p)"
  "(kind r = ''Healthcare'') = (\<exists>h. r = AnalyzeHealthcareEntitiesResult h)"
  "(kind r \<noteq> ''PiiEntityRecognition'' \<and> kind r \<noteq> ''Healthcare'' \<and> is_error r)
     = (\<exists>e. r = DocumentError e)"
  by (cases r; simp)+

lemma process_result_eq:
  "process_result d r s =
     (if item_warnings r = [] then None else Some type_error,
      s\<lparr>logged := logged s @ item_lines d r,
        document_redacted_text := item_text r (document_redacted_text s)\<rparr>)"
  by (cases r)
     (simp_all add: log_structured_data_def json_dumps_pii json_dumps_phi logging_info_def
        logging_error_def)

lemma process_results_eq:
  "process_results d rs s =
     (if list_all (\<lambda>r. item_warnings r = []) rs then None else Some type_error,
      s\<lparr>logged := logged s @ concat (map (item_lines d) (processed rs)),
        document_redacted_text :=
          foldl (\<lambda>v r. item_text r v) (document_redacted_text s) (processed rs)\<rparr>)"
proof (induction rs arbitrary: s)
  case Nil
  show ?case by simp
next
  case (Cons r rs)
  show ?case
  proof (cases "item_warnings r = []")
    case True
    then show ?thesis by (simp add: process_result_eq Cons.IH)
  next
    case False
    then show ?thesis by (simp add: process_result_eq)
  qed
qed

lemma process_results_append:
  "process_results d (xs @ ys) s =
     (case process_results d xs s of
        (Some e, s') \<Rightarrow> (Some e, s')
      | (None, s') \<Rightarrow> process_results d ys s')"
  by (induction xs arbitrary: s) (auto split: prod.splits option.splits)

lemma process_actions_concat:
  "process_actions d groups s = process_results d (concat groups) s"
  by (induction groups arbitrary: s)
     (simp_all add: process_results_append split: prod.splits option.splits)

lemma foldl_item_text:
  "foldl (\<lambda>v r. item_text r v) v rs =
     (if pii_results rs = [] then v else Some (redacted_text (last (pii_results rs))))"
proof (induction rs arbitrary: v)
  case Nil
  show ?case by simp
next
  case (Cons r rs)
  show ?case by (cases r) (simp_all add: Cons.IH)
qed

lemma processed_all: "list_all (\<lambda>r. item_warnings r = []) rs \<Longrightarrow> processed rs = rs"
  by (induction rs) auto

lemma raising_item_writes_nothing:
  "process_result d r s = (Some e, s') \<Longrightarrow> logged s' = logged s"
  by (cases r) (auto simp add: process_result_eq split: if_splits)

section \<open>The analysis function in closed form\<close>

lemma analyze_pii_phi_eq:
  "analyze_pii_phi c docs d lg =
     (case c docs of
        Inl e \<Rightarrow> handler e lg
      | Inr groups \<Rightarrow>
          (if \<not> list_all (\<lambda>r. item_warnings r = []) (concat groups) then
             handler type_error (lg @ concat (map (item_lines d) (processed (concat groups))))
           else
             (case foldl (\<lambda>v r. item_text r v) None (concat groups) of
                None \<Rightarrow> handler unbound_local (lg @ concat (map (item_lines d) (concat groups)))
              | Some t \<Rightarrow> (PStr t, lg @ concat (map (item_lines d) (concat groups))))))"
  by (cases "c docs")
     (simp_all add: analyze_pii_phi_def process_actions_concat process_results_eq
        processed_all split: option.splits)

lemma analyze_pii_phi_frame:
  "analyze_pii_phi c docs d lg =
     (fst (analyze_pii_phi c docs d []), lg @ snd (analyze_pii_phi c docs d []))"
  by (cases "c docs")
     (simp_all add: analyze_pii_phi_eq [of c docs d lg] analyze_pii_phi_eq [of c docs d "[]"]
        handler_def split: option.splits)

lemma process_actions_frame:
  "logged (snd (process_actions d rs s)) = logged s @ classify d rs"
  by (simp add: classify_def process_actions_concat process_results_eq entry_frame_def)

lemma process_actions_raises:
  "fst (process_actions d rs s) = fst (process_actions d rs t)"
  by (simp add: process_actions_concat process_results_eq)

lemma analyze_no_exception:
  assumes "text_analytics_client documents = Inr document_results"
    and "fst (process_actions document_id document_results (entry_frame [])) = None"
  shows "analyze_pii_phi text_analytics_client documents document_id lg =
     (case foldl (\<lambda>v r. item_text r v) None (concat document_results) of
        None \<Rightarrow> handler unbound_local (lg @ concat (map (item_lines document_id) (concat document_results)))
      | Some t \<Rightarrow> (PStr t, lg @ concat (map (item_lines document_id) (concat document_results))))"
proof -
  from assms(2) have ok: "list_all (\<lambda>r. item_warnings r = []) (concat document_results)"
    by (simp add: process_actions_concat process_results_eq split: if_splits)
  then have "processed (concat document_results) = concat document_results"
    by (rule processed_all)
  with ok assms(1) show ?thesis
    by (simp add: analyze_pii_phi_def process_actions_concat process_results_eq
          entry_frame_def split: option.splits)
qed

lemma outputblob_set:
  "decode_utf8 (blob_content myblob) = Some text \<Longrightarrow>
   fst (analyze_sensitive_data c d myblob h) = Returned
   \<and> outputblob (snd (analyze_sensitive_data c d myblob h))
       = Some (fst (analyze_pii_phi c [text] d
           (host_log h @
              [LogInfo (Text (''Starting analysis for document: '' @ blob_name myblob
                 @ '' with document ID: '' @ d @ [CHR 0x0A]))])))"
  by (simp add: analyze_sensitive_data_def Let_def split: prod.splits)

lemma decode_text_blob: "decode_utf8 (blob_content text_blob) = Some ''Anna is at 555-0100 now''"
  by (simp add: decode_utf8_def text_blob_def)

section \<open>The structured records of a run\<close>

lemma structured_records_append [simp]:
  "structured_records (xs @ ys) = structured_records xs @ structured_records ys"
  by (simp add: structured_records_def)

lemma structured_item_lines:
  "v \<in> set (structured_records (item_lines d r)) \<Longrightarrow>
     dict_get v ''modelVersion'' = Some (PStr ''2023-09-01'')
     \<and> (\<exists>dims. dict_get v ''documents'' = Some dims \<and> dict_get dims ''id'' = Some (PStr d))"
  by (cases r)
     (auto simp add: structured_records_def log_entry_def pii_documents_def phi_documents_def
        split: if_splits)

lemma structured_lines:
  "v \<in> set (structured_records (concat (map (item_lines d) rs))) \<Longrightarrow>
     dict_get v ''modelVersion'' = Some (PStr ''2023-09-01'')
     \<and> (\<exists>dims. dict_get v ''documents'' = Some dims \<and> dict_get dims ''id'' = Some (PStr d))"
proof (induction rs)
  case Nil
  then show ?case by (simp add: structured_records_def)
next
  case (Cons r rs)
  from Cons.prems have "v \<in> set (structured_records (item_lines d r))
      \<or> v \<in> set (structured_records (concat (map (item_lines d) rs)))"
    by simp
  then show ?case
    using structured_item_lines Cons.IH by blast
qed

lemma structured_handler:
  "structured_records (snd (handler e lg)) = structured_records lg"
  by (simp add: handler_def structured_records_def)

section \<open>The projections written out\<close>

lemma pii_entity_record_fun:
  "pii_entity_record =
     (\<lambda>e. PDict [(''category'', PStr (pii_category e)),
                  (''subcategory'',
                     (case pii_subcategory e of None \<Rightarrow> PNone | Some t \<Rightarrow> PStr t)),
                  (''offset'', PInt (pii_offset e)),
                  (''length'', PInt (pii_length e)),
                  (''confidence_score'', PFloat (pii_confidence_score e))])"
  by (rule ext) (simp add: pii_entity_record_def opt_str_def)

lemma relation_info_fun:
  "relation_info =
     (\<lambda>rel. PDict [(''confidenceScore'', PFloat (rel_confidence_score rel)),
                    (''relationType'', PStr (relation_type rel)),
                    (''entities'',
                       PList (map (\<lambda>ro. PDict [(''role'', PStr (role_name ro))])
                                (roles rel)))])"
  by (rule ext) (simp add: relation_info_def entity_info_def)

section \<open>C1: the last PII result gives the returned text\<close>

text \<open>
  C1. When the client returns a response that contains at least one PII result and the loops
  raise no exception, \<^verbatim>\<open>analyze_pii_phi\<close> returns the redacted text of the last PII
  result in iteration order over all groups, whatever earlier PII results held; and when the
  blob decodes to the one submitted document, the handler returns and sets the output blob
  to that text.
\<close>

theorem last_pii_result_wins:
  assumes "text_analytics_client documents = Inr document_results"
    and "fst (process_actions document_id document_results (entry_frame [])) = None"
    and "pii_results (concat document_results) \<noteq> []"
  shows "fst (analyze_pii_phi text_analytics_client documents document_id lg)
           = PStr (redacted_text (last (pii_results (concat document_results))))
         \<and> (decode_utf8 (blob_content myblob) = Some document \<and> documents = [document]
            \<longrightarrow> fst (analyze_sensitive_data text_analytics_client document_id myblob h)
                  = Returned
                \<and> outputblob (snd (analyze_sensitive_data text_analytics_client document_id
                     myblob h))
                  = Some (PStr (redacted_text (last (pii_results (concat document_results))))))"
proof -
  have ret: "\<And>lg. fst (analyze_pii_phi text_analytics_client documents document_id lg)
      = PStr (redacted_text (last (pii_results (concat document_results))))"
    using assms(3)
    by (simp add: foldl_item_text
          analyze_no_exception [of text_analytics_client documents document_results
            document_id, OF assms(1,2)])
  show ?thesis
    using ret by (auto simp add: outputblob_set)
qed

theorem last_pii_result_wins_witness:
  "fst (analyze_pii_phi two_pii_client [''Anna is at 555-0100 now''] ''doc-1'' [])
     = PStr ''**** is at **** now''
   \<and> fst (analyze_sensitive_data two_pii_client ''doc-1'' text_blob idle_host) = Returned
   \<and> outputblob (snd (analyze_sensitive_data two_pii_client ''doc-1'' text_blob idle_host))
     = Some (PStr ''**** is at **** now'')"
  using last_pii_result_wins [where text_analytics_client = two_pii_client
      and documents = "[''Anna is at 555-0100 now'']" and document_id = "''doc-1''"
      and document_results = "[[RecognizePiiEntitiesResult earlier_pii,
           AnalyzeHealthcareEntitiesResult empty_healthcare],
          [RecognizePiiEntitiesResult fabricated_pii]]"
      and lg = "[]" and myblob = text_blob and document = "''Anna is at 555-0100 now''"
      and h = idle_host]
    decode_text_blob
  by (simp add: two_pii_client_def process_result_eq earlier_pii_def empty_healthcare_def
        fabricated_pii_def)

section \<open>C2: a blob that is not UTF-8\<close>

text \<open>
  C2, as stated, fails: for the Latin-1 blob the decoding raises before the analysis
  function is called, the exception leaves \<^verbatim>\<open>analyze_sensitive_data\<close>, and the output
  blob is never set, so no failure payload is written.
\<close>

theorem decoding_error_counterexample:
  "fst (analyze_sensitive_data both_client ''doc-1'' latin1_blob idle_host)
     = Raised ''UnicodeDecodeError''
   \<and> outputblob (snd (analyze_sensitive_data both_client ''doc-1'' latin1_blob idle_host))
     = None"
  by (simp add: analyze_sensitive_data_def decode_utf8_def latin1_blob_def idle_host_def
        cont_def)

text \<open>
  C2, amended. For every blob whose bytes are not valid UTF-8,
  \<^verbatim>\<open>UnicodeDecodeError\<close> leaves the handler, the output blob is left as it was, the only
  line written is the plain line that announces the start, and no structured record is
  written.
\<close>

theorem decoding_error_leaves_handler:
  assumes "decode_utf8 (blob_content myblob) = None"
  shows "fst (analyze_sensitive_data text_analytics_client document_id myblob h)
           = Raised ''UnicodeDecodeError''
         \<and> outputblob (snd (analyze_sensitive_data text_analytics_client document_id myblob h))
           = outputblob h
         \<and> host_log (snd (analyze_sensitive_data text_analytics_client document_id myblob h))
           = host_log h @
               [LogInfo (Text (''Starting analysis for document: '' @ blob_name myblob
                  @ '' with document ID: '' @ document_id @ [CHR 0x0A]))]
         \<and> structured_records
             (host_log (snd (analyze_sensitive_data text_analytics_client document_id myblob h)))
           = structured_records (host_log h)"
  using assms by (simp add: analyze_sensitive_data_def Let_def structured_records_def)

theorem decoding_error_leaves_handler_witness:
  "decode_utf8 (blob_content truncated_blob) = None
   \<and> analyze_sensitive_data both_client ''doc-1'' truncated_blob idle_host
     = (Raised ''UnicodeDecodeError'',
        \<lparr>host_log = [LogInfo (Text (''Starting analysis for document: cut.txt''
                        @ '' with document ID: doc-1'' @ [CHR 0x0A]))],
         outputblob = None\<rparr>)"
proof -
  have d: "decode_utf8 (blob_content truncated_blob) = None"
    by (simp add: decode_utf8_def truncated_blob_def)
  from decoding_error_leaves_handler [OF d, of both_client "''doc-1''" idle_host]
  show ?thesis
    using d
    by (simp add: analyze_sensitive_data_def Let_def idle_host_def truncated_blob_def)
qed

section \<open>C3: a document error next to a PII result\<close>

text \<open>
  C3. On a response with one PII result that carries a warning and one document error,
  the encoder raises \<^verbatim>\<open>TypeError\<close> on the warning object in the PII record: no PII
  record is written, the loop ends before the document error is reached, so no line carries
  its code and message, and the function returns the failure payload.
\<close>

theorem warning_breaks_error_isolation:
  "analyze_pii_phi isolation_client [''Anna called''] ''doc-1'' []
     = (PDict [(''error'',
                PStr ''Object of type TextAnalyticsWarning is not JSON serializable''),
               (''status'', PStr ''failed'')],
        [LogError (Text (''Error analyzing document: ''
           @ ''Object of type TextAnalyticsWarning is not JSON serializable''))])"
  by (simp add: analyze_pii_phi_eq isolation_client_def warned_pii_def handler_def
        failure_payload_def type_error_def)

text \<open>
  When the PII result has no warnings the isolation holds, in either order of the two
  items.
\<close>

lemma error_isolation_without_warnings:
  assumes "pii_warnings p = []"
  shows "analyze_pii_phi (\<lambda>documents. Inr [[RecognizePiiEntitiesResult p, DocumentError e]])
           docs d lg
         = (PStr (redacted_text p),
            lg @ [LogInfo (JsonText (log_entry ''PII'' (pii_documents d p)
                    (PBool (pii_is_error p)))),
                  LogError (Text (error_line e))])"
    and "analyze_pii_phi (\<lambda>documents. Inr [[DocumentError e, RecognizePiiEntitiesResult p]])
           docs d lg
         = (PStr (redacted_text p),
            lg @ [LogError (Text (error_line e)),
                  LogInfo (JsonText (log_entry ''PII'' (pii_documents d p)
                    (PBool (pii_is_error p))))])"
  using assms by (simp_all add: analyze_pii_phi_eq)

section \<open>C4: a response without one of the two results\<close>

text \<open>
  C4. On a response that holds the healthcare result only, the PHI record is written, no
  PII record is written, and the \<^verbatim>\<open>return\<close> reads a variable that was never bound:
  the function returns the failure payload with the message of
  \<^verbatim>\<open>UnboundLocalError\<close>.
\<close>

theorem missing_pii_result_fails:
  "analyze_pii_phi healthcare_only_client [''Take 200 mg of ibuprofen''] ''doc-1'' []
     = (PDict [(''error'', PStr (exn_str unbound_local)), (''status'', PStr ''failed'')],
        [LogInfo (JsonText (log_entry ''PHI'' (phi_documents ''doc-1'' empty_healthcare)
           (PBool False))),
         LogError (Text (''Error analyzing document: '' @ exn_str unbound_local))])"
  by (simp add: analyze_pii_phi_eq healthcare_only_client_def empty_healthcare_def
        handler_def failure_payload_def)

text \<open>
  The same for every response without a PII result that raises nothing in the loops; a
  response without a healthcare result is processed as usual.
\<close>

lemma no_pii_result_no_text:
  assumes "c docs = Inr groups" and "pii_results (concat groups) = []"
    and "fst (process_actions d groups (entry_frame [])) = None"
  shows "fst (analyze_pii_phi c docs d lg) = failure_payload (exn_str unbound_local)"
proof -
  from assms(3) have "list_all (\<lambda>r. item_warnings r = []) (concat groups)"
    by (simp add: process_actions_concat process_results_eq split: if_splits)
  with assms(1,2) show ?thesis
    by (simp add: analyze_pii_phi_eq foldl_item_text handler_def)
qed

lemma missing_healthcare_result_is_fine:
  assumes "pii_warnings p = []"
  shows "analyze_pii_phi (\<lambda>documents. Inr [[RecognizePiiEntitiesResult p]]) docs d lg
         = (PStr (redacted_text p),
            lg @ [LogInfo (JsonText (log_entry ''PII'' (pii_documents d p)
                    (PBool (pii_is_error p))))])"
  using assms by (simp add: analyze_pii_phi_eq)

section \<open>C5: a record that cannot be encoded\<close>

text \<open>
  C5, as stated, fails: the PII record of the first item cannot be encoded, the healthcare
  result after it is never classified, and the function returns the failure payload
  instead of the redacted text.
\<close>

theorem serialization_failure_counterexample:
  "analyze_pii_phi warned_first_client [''Anna called''] ''doc-1'' []
     = (failure_payload ''Object of type TextAnalyticsWarning is not JSON serializable'',
        [LogError (Text (''Error analyzing document: ''
           @ ''Object of type TextAnalyticsWarning is not JSON serializable''))])"
  by (simp add: analyze_pii_phi_eq warned_first_client_def warned_pii_def handler_def
        type_error_def empty_healthcare_def)

text \<open>
  C5, amended. An exception of the encoder leaves \<^verbatim>\<open>log_structured_data\<close> with no
  line written; when it is raised for an item of the response, the items after it are not
  classified, and \<^verbatim>\<open>analyze_pii_phi\<close> returns the failure payload with the exception's
  text and writes one error line after the lines of the items before.
\<close>

theorem serialization_failure_aborts:
  "(json_dumps (log_entry message custom_dimensions errors) = Inl e \<longrightarrow>
      log_structured_data message custom_dimensions errors s = (Some e, s))
   \<and> (c docs = Inr groups \<and> concat groups = pre @ r # post
       \<and> process_results d pre (entry_frame lg) = (None, s1)
       \<and> process_result d r s1 = (Some e, s2) \<longrightarrow>
      analyze_pii_phi c docs d lg
        = (failure_payload (exn_str e),
           logged s1 @ [LogError (Text (''Error analyzing document: '' @ exn_str e))]))"
proof (intro conjI impI)
  assume "json_dumps (log_entry message custom_dimensions errors) = Inl e"
  then show "log_structured_data message custom_dimensions errors s = (Some e, s)"
    by (simp add: log_structured_data_def)
next
  assume a: "c docs = Inr groups \<and> concat groups = pre @ r # post
       \<and> process_results d pre (entry_frame lg) = (None, s1)
       \<and> process_result d r s1 = (Some e, s2)"
  then have "process_actions d groups (entry_frame lg) = (Some e, s2)"
    by (simp add: process_actions_concat process_results_append)
  moreover from a have "logged s2 = logged s1"
    using raising_item_writes_nothing by blast
  ultimately show "analyze_pii_phi c docs d lg
        = (failure_payload (exn_str e),
           logged s1 @ [LogError (Text (''Error analyzing document: '' @ exn_str e))])"
    using a by (simp add: analyze_pii_phi_def entry_frame_def handler_def)
qed

theorem serialization_failure_aborts_witness:
  "json_dumps (log_entry ''PHI'' (phi_documents ''doc-1'' warned_healthcare) (PBool False))
     = Inl type_error
   \<and> log_structured_data ''PHI'' (phi_documents ''doc-1'' warned_healthcare) (PBool False)
       (entry_frame [])
     = (Some type_error, entry_frame [])
   \<and> analyze_pii_phi warned_later_client [''Anna is at 555-0100 now''] ''doc-1'' []
     = (failure_payload ''Object of type TextAnalyticsWarning is not JSON serializable'',
        [LogInfo (JsonText (log_entry ''PII'' (pii_documents ''doc-1'' fabricated_pii)
           (PBool False))),
         LogError (Text (''Error analyzing document: ''
           @ ''Object of type TextAnalyticsWarning is not JSON serializable''))])"
proof -
  have j: "json_dumps (log_entry ''PHI'' (phi_documents ''doc-1'' warned_healthcare)
      (PBool False)) = Inl type_error"
    by (simp add: json_dumps_phi warned_healthcare_def)
  have pre: "process_results ''doc-1'' [RecognizePiiEntitiesResult fabricated_pii]
      (entry_frame []) =
      (None, \<lparr>logged = [LogInfo (JsonText (log_entry ''PII''
                 (pii_documents ''doc-1'' fabricated_pii) (PBool False)))],
              document_redacted_text = Some ''**** is at **** now''\<rparr>)"
    by (simp add: process_result_eq fabricated_pii_def entry_frame_def)
  have r: "process_result ''doc-1'' (AnalyzeHealthcareEntitiesResult warned_healthcare)
      \<lparr>logged = [LogInfo (JsonText (log_entry ''PII''
                 (pii_documents ''doc-1'' fabricated_pii) (PBool False)))],
              document_redacted_text = Some ''**** is at **** now''\<rparr>
      = (Some type_error,
         \<lparr>logged = [LogInfo (JsonText (log_entry ''PII''
                 (pii_documents ''doc-1'' fabricated_pii) (PBool False)))],
              document_redacted_text = Some ''**** is at **** now''\<rparr>)"
    by (simp add: process_result_eq warned_healthcare_def)
  have c: "warned_later_client [''Anna is at 555-0100 now''] =
     Inr [[RecognizePiiEntitiesResult fabricated_pii,
           AnalyzeHealthcareEntitiesResult warned_healthcare,
           DocumentError invalid_document]]"
    by (simp add: warned_later_client_def)
  from serialization_failure_aborts [where message = "''PHI''"
      and custom_dimensions = "phi_documents ''doc-1'' warned_healthcare"
      and errors = "PBool False" and e = type_error and s = "entry_frame []"
      and c = warned_later_client and docs = "[''Anna is at 555-0100 now'']"
      and groups = "[[RecognizePiiEntitiesResult fabricated_pii,
           AnalyzeHealthcareEntitiesResult warned_healthcare,
           DocumentError invalid_document]]"
      and pre = "[RecognizePiiEntitiesResult fabricated_pii]"
      and r = "AnalyzeHealthcareEntitiesResult warned_healthcare"
      and post = "[DocumentError invalid_document]" and d = "''doc-1''" and lg = "[]"
      and ?s1.0 = "\<lparr>logged = [LogInfo (JsonText (log_entry ''PII''
                 (pii_documents ''doc-1'' fabricated_pii) (PBool False)))],
              document_redacted_text = Some ''**** is at **** now''\<rparr>"
      and ?s2.0 = "\<lparr>logged = [LogInfo (JsonText (log_entry ''PII''
                 (pii_documents ''doc-1'' fabricated_pii) (PBool False)))],
              document_redacted_text = Some ''**** is at **** now''\<rparr>"]
  show ?thesis
    using j pre r c by (simp add: type_error_def)
qed

section \<open>C6: projection of healthcare entities\<close>



lemma healthcare_entity_without_extras:
  "dict_get (healthcare_entity_record dosage_entity) ''data_sources'' = Some (PList [])
   \<and> dict_get (healthcare_entity_record dosage_entity) ''assertion'' = None
   \<and> ''assertion'' \<notin> set (dict_keys (healthcare_entity_record dosage_entity))"
  by (simp add: healthcare_entity_record_def dosage_entity_def)

section \<open>C7: the relations of the PHI record\<close>

text \<open>
  C7. On a healthcare result with two relations that carries a warning, the encoder raises
  \<^verbatim>\<open>TypeError\<close> on the warning object in the record: the branch writes no PHI record,
  so no emitted record holds the relations, and the analysis function returns the failure
  payload after the PII record and one error line.
\<close>

theorem warned_relations_emit_no_record:
  "process_result ''doc-1'' (AnalyzeHealthcareEntitiesResult warned_relations)
       \<lparr>logged = [], document_redacted_text = None\<rparr>
     = (Some (Exn ''TypeError''
          ''Object of type TextAnalyticsWarning is not JSON serializable''),
        \<lparr>logged = [], document_redacted_text = None\<rparr>)
   \<and> analyze_pii_phi warned_relations_client [''Anna is at 555-0100 now''] ''doc-1'' []
     = (PDict [(''error'',
                PStr ''Object of type TextAnalyticsWarning is not JSON serializable''),
               (''status'', PStr ''failed'')],
        [LogInfo (JsonText
           (PDict [(''analysis_type'', PStr ''PII''),
                   (''documents'',
                      PDict [(''id'', PStr ''doc-1''),
                             (''entities'',
                                PList [PDict [(''category'', PStr ''Name''),
                                              (''subcategory'', PNone),
                                              (''offset'', PInt 0), (''length'', PInt 4),
                                              (''confidence_score'', PFloat 0.9)],
                                       PDict [(''category'', PStr ''Phone''),
                                              (''subcategory'', PNone),
                                              (''offset'', PInt 10), (''length'', PInt 8),
                                              (''confidence_score'', PFloat 0.95)]]),
                             (''warnings'', PList [])]),
                   (''errors'', PBool False),
                   (''modelVersion'', PStr ''2023-09-01'')])),
         LogError (Text (''Error analyzing document: ''
           @ ''Object of type TextAnalyticsWarning is not JSON serializable''))])"
proof -
  have 1: "process_result ''doc-1'' (AnalyzeHealthcareEntitiesResult warned_relations)
       \<lparr>logged = [], document_redacted_text = None\<rparr>
     = (Some (Exn ''TypeError''
          ''Object of type TextAnalyticsWarning is not JSON serializable''),
        \<lparr>logged = [], document_redacted_text = None\<rparr>)"
    by (simp add: process_result_eq warned_relations_def type_error_def)
  have 2: "analyze_pii_phi warned_relations_client [''Anna is at 555-0100 now''] ''doc-1'' []
     = (PDict [(''error'',
                PStr ''Object of type TextAnalyticsWarning is not JSON serializable''),
               (''status'', PStr ''failed'')],
        [LogInfo (JsonText
           (PDict [(''analysis_type'', PStr ''PII''),
                   (''documents'',
                      PDict [(''id'', PStr ''doc-1''),
                             (''entities'',
                                PList [PDict [(''category'', PStr ''Name''),
                                              (''subcategory'', PNone),
                                              (''offset'', PInt 0), (''length'', PInt 4),
                                              (''confidence_score'', PFloat 0.9)],
                                       PDict [(''category'', PStr ''Phone''),
                                              (''subcategory'', PNone),
                                              (''offset'', PInt 10), (''length'', PInt 8),
                                              (''confidence_score'', PFloat 0.95)]]),
                             (''warnings'', PList [])]),
                   (''errors'', PBool False),
                   (''modelVersion'', PStr ''2023-09-01'')])),
         LogError (Text (''Error analyzing document: ''
           @ ''Object of type TextAnalyticsWarning is not JSON serializable''))])"
    by (simp add: analyze_pii_phi_eq warned_relations_client_def warned_relations_def
          fabricated_pii_def name_entity_def phone_entity_def handler_def failure_payload_def
          type_error_def log_entry_def pii_documents_def pii_entity_record_def opt_str_def)
  from 1 2 show ?thesis by (rule conjI)
qed

text \<open>
  When the healthcare result has no warnings, the branch writes one PHI record; its
  relations are one record per relation of the result, with the relation's confidence score
  and type and one record with the single key role per role.
\<close>

lemma phi_record_without_warnings:
  assumes "hc_warnings r = []"
  shows "process_result d (AnalyzeHealthcareEntitiesResult r) s
     = (None,
        s\<lparr>logged := logged s @
          [LogInfo (JsonText
             (PDict [(''analysis_type'', PStr ''PHI''),
                     (''documents'',
                        PDict [(''id'', PStr d),
                               (''entities'',
                                  PList (map healthcare_entity_record (hc_entities r))),
                               (''relations'',
                                  PList (map (\<lambda>rel.
                                     PDict [(''confidenceScore'',
                                               PFloat (rel_confidence_score rel)),
                                            (''relationType'', PStr (relation_type rel)),
                                            (''entities'',
                                               PList (map (\<lambda>ro.
                                                  PDict [(''role'', PStr (role_name ro))])
                                                  (roles rel)))])
                                     (entity_relations r))),
                               (''warnings'', PList [])]),
                     (''errors'', PBool (hc_is_error r)),
                     (''modelVersion'', PStr ''2023-09-01'')]))]\<rparr>)"
  using assms
  by (simp add: process_result_eq log_entry_def phi_documents_def relation_info_fun)

section \<open>C8: redaction extraction and projection of PII entities\<close>

text \<open>
  C8. For every PII result, the branch binds \<^verbatim>\<open>document_redacted_text\<close> to exactly the
  result's redacted text, and the record it hands to the log emitter holds one projection per
  entity of the result; each projection has exactly the keys category, subcategory, offset,
  length and confidence_score, with the values of the source entity (\<^verbatim>\<open>None\<close> where
  the entity has no subcategory). When the result is the whole response, the analysis
  function returns the redacted text if the result has no warnings, and the failure payload
  of the encoder's exception otherwise.
\<close>

theorem pii_round_trip:
  "document_redacted_text (snd (process_result d (RecognizePiiEntitiesResult r) s))
     = Some (redacted_text r)
   \<and> process_result d (RecognizePiiEntitiesResult r) s
     = log_structured_data ''PII''
         (PDict [(''id'', PStr d),
                 (''entities'',
                    PList (map (\<lambda>entity.
                       PDict [(''category'', PStr (pii_category entity)),
                              (''subcategory'',
                                 (case pii_subcategory entity of
                                    None \<Rightarrow> PNone
                                  | Some t \<Rightarrow> PStr t)),
                              (''offset'', PInt (pii_offset entity)),
                              (''length'', PInt (pii_length entity)),
                              (''confidence_score'', PFloat (pii_confidence_score entity))])
                       (pii_entities r))),
                 (''warnings'', PList (map warning_object (pii_warnings r)))])
         (PBool (pii_is_error r))
         (s\<lparr>document_redacted_text := Some (redacted_text r)\<rparr>)
   \<and> pii_entity_record e
     = PDict [(''category'', PStr (pii_category e)),
              (''subcategory'',
                 (case pii_subcategory e of None \<Rightarrow> PNone | Some t \<Rightarrow> PStr t)),
              (''offset'', PInt (pii_offset e)),
              (''length'', PInt (pii_length e)),
              (''confidence_score'', PFloat (pii_confidence_score e))]
   \<and> dict_keys (pii_entity_record e)
        = [''category'', ''subcategory'', ''offset'', ''length'', ''confidence_score'']
   \<and> dict_get (pii_entity_record e) ''category'' = Some (PStr (pii_category e))
   \<and> dict_get (pii_entity_record e) ''subcategory''
        = Some (case pii_subcategory e of None \<Rightarrow> PNone | Some t \<Rightarrow> PStr t)
   \<and> dict_get (pii_entity_record e) ''offset'' = Some (PInt (pii_offset e))
   \<and> dict_get (pii_entity_record e) ''length'' = Some (PInt (pii_length e))
   \<and> dict_get (pii_entity_record e) ''confidence_score''
        = Some (PFloat (pii_confidence_score e))
   \<and> dict_get (pii_documents d r) ''entities''
        = Some (PList (map pii_entity_record (pii_entities r)))
   \<and> fst (analyze_pii_phi (\<lambda>documents. Inr [[RecognizePiiEntitiesResult r]]) docs d lg)
       = (if pii_warnings r = [] then PStr (redacted_text r)
          else PDict [(''error'',
                       PStr ''Object of type TextAnalyticsWarning is not JSON serializable''),
                      (''status'', PStr ''failed'')])"
proof -
  have var: "document_redacted_text (snd (process_result d (RecognizePiiEntitiesResult r) s))
      = Some (redacted_text r)"
    by (simp add: process_result_eq)
  have branch: "process_result d (RecognizePiiEntitiesResult r) s
     = log_structured_data ''PII''
         (PDict [(''id'', PStr d),
                 (''entities'',
                    PList (map (\<lambda>entity.
                       PDict [(''category'', PStr (pii_category entity)),
                              (''subcategory'',
                                 (case pii_subcategory entity of
                                    None \<Rightarrow> PNone
                                  | Some t \<Rightarrow> PStr t)),
                              (''offset'', PInt (pii_offset entity)),
                              (''length'', PInt (pii_length entity)),
                              (''confidence_score'', PFloat (pii_confidence_score entity))])
                       (pii_entities r))),
                 (''warnings'', PList (map warning_object (pii_warnings r)))])
         (PBool (pii_is_error r))
         (s\<lparr>document_redacted_text := Some (redacted_text r)\<rparr>)"
    by (simp add: pii_documents_def pii_entity_record_fun)
  have shape: "pii_entity_record e
     = PDict [(''category'', PStr (pii_category e)),
              (''subcategory'',
                 (case pii_subcategory e of None \<Rightarrow> PNone | Some t \<Rightarrow> PStr t)),
              (''offset'', PInt (pii_offset e)),
              (''length'', PInt (pii_length e)),
              (''confidence_score'', PFloat (pii_confidence_score e))]"
    by (simp add: pii_entity_record_def opt_str_def)
  have fields: "dict_keys (pii_entity_record e)
        = [''category'', ''subcategory'', ''offset'', ''length'', ''confidence_score'']
   \<and> dict_get (pii_entity_record e) ''category'' = Some (PStr (pii_category e))
   \<and> dict_get (pii_entity_record e) ''subcategory''
        = Some (case pii_subcategory e of None \<Rightarrow> PNone | Some t \<Rightarrow> PStr t)
   \<and> dict_get (pii_entity_record e) ''offset'' = Some (PInt (pii_offset e))
   \<and> dict_get (pii_entity_record e) ''length'' = Some (PInt (pii_length e))
   \<and> dict_get (pii_entity_record e) ''confidence_score''
        = Some (PFloat (pii_confidence_score e))"
    by (simp add: shape)
  have ents: "dict_get (pii_documents d r) ''entities''
      = Some (PList (map pii_entity_record (pii_entities r)))"
    by (simp add: pii_documents_def)
  have ret: "fst (analyze_pii_phi (\<lambda>documents. Inr [[RecognizePiiEntitiesResult r]]) docs d lg)
       = (if pii_warnings r = [] then PStr (redacted_text r)
          else PDict [(''error'',
                       PStr ''Object of type TextAnalyticsWarning is not JSON serializable''),
                      (''status'', PStr ''failed'')])"
    by (simp add: analyze_pii_phi_eq handler_def failure_payload_def type_error_def)
  from var branch shape fields ents ret show ?thesis by blast
qed

theorem pii_round_trip_witness:
  "pii_warnings fabricated_pii = []
   \<and> fst (analyze_pii_phi (\<lambda>documents. Inr [[RecognizePiiEntitiesResult fabricated_pii]])
            [''Anna is at 555-0100 now''] ''doc-1'' [])
       = PStr ''**** is at **** now''
   \<and> document_redacted_text
        (snd (process_result ''doc-1'' (RecognizePiiEntitiesResult fabricated_pii)
           (entry_frame [])))
       = Some ''**** is at **** now''
   \<and> dict_get (pii_documents ''doc-1'' fabricated_pii) ''entities''
       = Some (PList
           [PDict [(''category'', PStr ''Name''), (''subcategory'', PNone),
                   (''offset'', PInt 0), (''length'', PInt 4),
                   (''confidence_score'', PFloat 0.9)],
            PDict [(''category'', PStr ''Phone''), (''subcategory'', PNone),
                   (''offset'', PInt 10), (''length'', PInt 8),
                   (''confidence_score'', PFloat 0.95)]])
   \<and> pii_entity_record date_entity
       = PDict [(''category'', PStr ''DateTime''), (''subcategory'', PStr ''Date''),
                (''offset'', PInt 22), (''length'', PInt 10),
                (''confidence_score'', PFloat 0.8)]
   \<and> dict_get (pii_entity_record date_entity) ''subcategory'' = Some (PStr ''Date'')"
  using pii_round_trip [where d = "''doc-1''" and r = fabricated_pii and s = "entry_frame []"
      and docs = "[''Anna is at 555-0100 now'']" and lg = "[]" and e = date_entity]
    pii_round_trip [where d = "''doc-1''" and r = fabricated_pii and s = "entry_frame []"
      and docs = "[''Anna is at 555-0100 now'']" and lg = "[]" and e = name_entity]
    pii_round_trip [where d = "''doc-1''" and r = fabricated_pii and s = "entry_frame []"
      and docs = "[''Anna is at 555-0100 now'']" and lg = "[]" and e = phone_entity]
  by (simp add: fabricated_pii_def name_entity_def phone_entity_def date_entity_def)

section \<open>C9: classification is deterministic\<close>

text \<open>
  C9. The lines that classifying a response writes, and whether it raises, depend on the
  response and the document id only: from any frame the loops append \<open>classify d rs\<close>,
  classifying a second time appends the same lines again, and the analysis function
  returns the same value and appends the same lines whatever the channel held before.
\<close>

theorem classification_deterministic:
  "logged (snd (process_actions d rs s)) = logged s @ classify d rs
   \<and> fst (process_actions d rs s) = fst (process_actions d rs (entry_frame []))
   \<and> logged (snd (process_actions d rs (snd (process_actions d rs s))))
       = logged s @ classify d rs @ classify d rs
   \<and> fst (analyze_pii_phi c docs d lg) = fst (analyze_pii_phi c docs d [])
   \<and> snd (analyze_pii_phi c docs d lg) = lg @ snd (analyze_pii_phi c docs d [])"
proof -
  have 1: "logged (snd (process_actions d rs s)) = logged s @ classify d rs"
    by (rule process_actions_frame)
  have 2: "fst (process_actions d rs s) = fst (process_actions d rs (entry_frame []))"
    by (rule process_actions_raises)
  have 3: "logged (snd (process_actions d rs (snd (process_actions d rs s))))
       = logged s @ classify d rs @ classify d rs"
    by (simp add: process_actions_frame)
  have 4: "fst (analyze_pii_phi c docs d lg) = fst (analyze_pii_phi c docs d [])"
    by (subst analyze_pii_phi_frame) simp
  have 5: "snd (analyze_pii_phi c docs d lg) = lg @ snd (analyze_pii_phi c docs d [])"
    by (subst analyze_pii_phi_frame) simp
  from 1 2 3 4 5 show ?thesis by simp
qed

theorem classification_deterministic_witness:
  "snd (analyze_pii_phi both_client [''Anna is at 555-0100 now''] ''doc-1''
          (snd (analyze_pii_phi both_client [''Anna is at 555-0100 now''] ''doc-1'' [])))
     = snd (analyze_pii_phi both_client [''Anna is at 555-0100 now''] ''doc-1'' [])
       @ snd (analyze_pii_phi both_client [''Anna is at 555-0100 now''] ''doc-1'' [])
   \<and> snd (analyze_pii_phi both_client [''Anna is at 555-0100 now''] ''doc-1'' [])
     = [LogInfo (JsonText (log_entry ''PII'' (pii_documents ''doc-1'' fabricated_pii)
          (PBool False))),
        LogInfo (JsonText (log_entry ''PHI'' (phi_documents ''doc-1'' sample_healthcare)
          (PBool False)))]"
proof -
  have e: "snd (analyze_pii_phi both_client [''Anna is at 555-0100 now''] ''doc-1'' [])
     = [LogInfo (JsonText (log_entry ''PII'' (pii_documents ''doc-1'' fabricated_pii)
          (PBool False))),
        LogInfo (JsonText (log_entry ''PHI'' (phi_documents ''doc-1'' sample_healthcare)
          (PBool False)))]"
    by (simp add: analyze_pii_phi_eq both_client_def fabricated_pii_def sample_healthcare_def)
  from classification_deterministic [where c = both_client
      and docs = "[''Anna is at 555-0100 now'']" and d = "''doc-1''"
      and lg = "snd (analyze_pii_phi both_client [''Anna is at 555-0100 now''] ''doc-1'' [])"
      and rs = "[]" and s = "entry_frame []"]
  have "snd (analyze_pii_phi both_client [''Anna is at 555-0100 now''] ''doc-1''
          (snd (analyze_pii_phi both_client [''Anna is at 555-0100 now''] ''doc-1'' [])))
     = snd (analyze_pii_phi both_client [''Anna is at 555-0100 now''] ''doc-1'' [])
       @ snd (analyze_pii_phi both_client [''Anna is at 555-0100 now''] ''doc-1'' [])"
    by blast
  with e show ?thesis by blast
qed

section \<open>C10: the version tag and the correlation id\<close>

text \<open>
  C10. Every record that the log emitter builds has modelVersion 2023-09-01, and every
  structured record that a call of the analysis function writes has that modelVersion and
  a documents payload whose id is the document id of the call.
\<close>

theorem records_carry_version_and_id:
  "dict_get (log_entry message custom_dimensions errors) ''modelVersion''
     = Some (PStr ''2023-09-01'')
   \<and> (v \<in> set (structured_records (snd (analyze_pii_phi c docs d []))) \<longrightarrow>
        dict_get v ''modelVersion'' = Some (PStr ''2023-09-01'')
        \<and> (\<exists>dims. dict_get v ''documents'' = Some dims
                  \<and> dict_get dims ''id'' = Some (PStr d)))"
proof (intro conjI impI)
  show "dict_get (log_entry message custom_dimensions errors) ''modelVersion''
     = Some (PStr ''2023-09-01'')"
    by (simp add: log_entry_def)
next
  assume v: "v \<in> set (structured_records (snd (analyze_pii_phi c docs d [])))"
  show "dict_get v ''modelVersion'' = Some (PStr ''2023-09-01'')"
  proof (cases "c docs")
    case (Inl e)
    with v show ?thesis
      by (simp add: analyze_pii_phi_eq structured_handler) (simp add: structured_records_def)
  next
    case (Inr groups)
    with v have "v \<in> set (structured_records
          (concat (map (item_lines d) (processed (concat groups)))))
       \<or> v \<in> set (structured_records (concat (map (item_lines d) (concat groups))))"
      by (simp add: analyze_pii_phi_eq structured_handler split: if_splits option.splits)
    then show ?thesis using structured_lines by blast
  qed
next
  assume v: "v \<in> set (structured_records (snd (analyze_pii_phi c docs d [])))"
  show "\<exists>dims. dict_get v ''documents'' = Some dims \<and> dict_get dims ''id'' = Some (PStr d)"
  proof (cases "c docs")
    case (Inl e)
    with v show ?thesis
      by (simp add: analyze_pii_phi_eq structured_handler) (simp add: structured_records_def)
  next
    case (Inr groups)
    with v have "v \<in> set (structured_records
          (concat (map (item_lines d) (processed (concat groups)))))
       \<or> v \<in> set (structured_records (concat (map (item_lines d) (concat groups))))"
      by (simp add: analyze_pii_phi_eq structured_handler split: if_splits option.splits)
    then show ?thesis using structured_lines by blast
  qed
qed

theorem records_carry_version_and_id_witness:
  "structured_records (snd (analyze_pii_phi both_client [''Anna is at 555-0100 now'']
       ''doc-1'' []))
     = [log_entry ''PII'' (pii_documents ''doc-1'' fabricated_pii) (PBool False),
        log_entry ''PHI'' (phi_documents ''doc-1'' sample_healthcare) (PBool False)]
   \<and> dict_get (log_entry ''PHI'' (phi_documents ''doc-1'' sample_healthcare) (PBool False))
       ''modelVersion'' = Some (PStr ''2023-09-01'')
   \<and> (\<exists>dims. dict_get (log_entry ''PHI'' (phi_documents ''doc-1'' sample_healthcare)
                  (PBool False)) ''documents'' = Some dims
             \<and> dict_get dims ''id'' = Some (PStr ''doc-1''))"
proof -
  have e: "structured_records (snd (analyze_pii_phi both_client [''Anna is at 555-0100 now'']
       ''doc-1'' []))
     = [log_entry ''PII'' (pii_documents ''doc-1'' fabricated_pii) (PBool False),
        log_entry ''PHI'' (phi_documents ''doc-1'' sample_healthcare) (PBool False)]"
    by (simp add: analyze_pii_phi_eq both_client_def fabricated_pii_def sample_healthcare_def
          structured_records_def)
  from records_carry_version_and_id [where c = both_client
      and docs = "[''Anna is at 555-0100 now'']" and d = "''doc-1''"
      and v = "log_entry ''PHI'' (phi_documents ''doc-1'' sample_healthcare) (PBool False)"
      and message = "''PHI''" and custom_dimensions = PNone and errors = PNone] e
  show ?thesis by simp
qed

end
